theory Spec2Isabelle
  imports Complex_Main "HOL-Library.Word" "HOL-Library.Sublist"
begin

section \<open>Daily Sales Tracker: the ledger of \<^verbatim>\<open>src/App.tsx\<close>\<close>

text \<open>
  The component \<^verbatim>\<open>App\<close> keeps a list of transactions in React state, mirrors it to
  \<^verbatim>\<open>localStorage\<close> under the key \<^verbatim>\<open>dailySales\<close>, and derives the day and week
  figures from it. The functions of the component are embedded below as HOL functions:
  the React state is a record that each handler takes and returns, and everything a
  handler reads from the platform (the clock, the time zone, the generated UUID, the
  answer of the confirmation dialog, the storage) is an argument.
\<close>

subsection \<open>Strings and numbers of the platform\<close>

text \<open>
  A JavaScript string is a sequence of UTF-16 code units. A \<^verbatim>\<open>number\<close> is modelled by
  an integer: every number the component stores comes from \<^verbatim>\<open>parseInt\<close>, from
  \<^verbatim>\<open>Date.now()\<close> or from sums and products of those, and on integers of magnitude below
  \<open>2 ^ 53\<close> the arithmetic of doubles is the arithmetic of \<open>int\<close>. The one other number
  the form can hold is \<^verbatim>\<open>NaN\<close> (\<^verbatim>\<open>Math.max(1, parseInt(".5", 10))\<close>), so the numbers
  of the form fields are \<open>jsnumber\<close>.
\<close>

type_synonym jsstring = "16 word list"

definition ascii :: "string \<Rightarrow> jsstring" where
  "ascii s = map of_char s"

datatype jsnumber = NaN | Num int

text \<open>The type \<^verbatim>\<open>number | ''\<close> of the state variables \<^verbatim>\<open>quantity\<close> and \<^verbatim>\<open>price\<close>.\<close>

datatype field = EmptyString | Numeric jsnumber

text \<open>\<^verbatim>\<open>Number(x)\<close> on such a value: the empty string converts to \<open>0\<close>.\<close>

fun ToNumber :: "field \<Rightarrow> jsnumber" where
  "ToNumber EmptyString = Num 0"
| "ToNumber (Numeric n) = n"

text \<open>
  \<^verbatim>\<open>String.prototype.trim\<close> strips the code units of the ECMAScript productions
  WhiteSpace and LineTerminator from both ends.
\<close>

definition isWhiteSpace :: "16 word \<Rightarrow> bool" where
  "isWhiteSpace c \<longleftrightarrow>
     c = 0x0009 \<or> c = 0x000A \<or> c = 0x000B \<or> c = 0x000C \<or> c = 0x000D \<or> c = 0x0020 \<or>
     c = 0x00A0 \<or> c = 0x1680 \<or> (0x2000 \<le> c \<and> c \<le> 0x200A) \<or> c = 0x2028 \<or> c = 0x2029 \<or>
     c = 0x202F \<or> c = 0x205F \<or> c = 0x3000 \<or> c = 0xFEFF"

definition trim :: "jsstring \<Rightarrow> jsstring" where
  "trim s = rev (dropWhile isWhiteSpace (rev (dropWhile isWhiteSpace s)))"

subsection \<open>The data model (lines 10-16 and 29-31)\<close>

record Transaction =
  id_tx :: jsstring
  name :: jsstring
  quantity :: int
  price :: int
  timestamp :: int

text \<open>
  The state of the component: the ledger and the three controlled form fields
  (\<^verbatim>\<open>useState\<close>, lines 19 and 29-31).
\<close>

record AppState =
  transactions :: "Transaction list"
  productName :: jsstring
  quantity_field :: field
  price_field :: field

subsection \<open>Dates\<close>

text \<open>
  A \<^verbatim>\<open>Date\<close> is its time value, the milliseconds since the epoch. Local time is taken
  in a zone of constant offset \<open>tza\<close> (LocalTZA, in milliseconds): \<open>LocalTime\<close>,
  \<open>Day\<close> and \<open>WeekDay\<close> are the abstract operations of ECMAScript of those names.
\<close>

definition msPerDay :: int where
  "msPerDay = 86400000"

definition LocalTime :: "int \<Rightarrow> int \<Rightarrow> int" where
  "LocalTime tza t = t + tza"

definition UTC :: "int \<Rightarrow> int \<Rightarrow> int" where
  "UTC tza t = t - tza"

definition Day :: "int \<Rightarrow> int" where
  "Day t = t div msPerDay"

definition WeekDay :: "int \<Rightarrow> int" where
  "WeekDay t = (Day t + 4) mod 7"

definition getDay :: "int \<Rightarrow> int \<Rightarrow> int" where
  "getDay tza d = WeekDay (LocalTime tza d)"

text \<open>\<^verbatim>\<open>d.setHours(0, 0, 0, 0)\<close>: local midnight of the local day of \<open>d\<close>.\<close>

definition setHours_0_0_0_0 :: "int \<Rightarrow> int \<Rightarrow> int" where
  "setHours_0_0_0_0 tza d = UTC tza (Day (LocalTime tza d) * msPerDay)"

text \<open>
  \<^verbatim>\<open>d.setDate(d.getDate() - n)\<close>: the local calendar date moves back by \<open>n\<close> days and
  the time within the day stays (MakeDay is linear in its date argument, and a date
  below 1 runs into the months before).
\<close>

definition setDate_getDate_minus :: "int \<Rightarrow> int \<Rightarrow> int \<Rightarrow> int" where
  "setDate_getDate_minus tza d n = UTC tza (LocalTime tza d - n * msPerDay)"

subsection \<open>The derived figures (the callback of \<^verbatim>\<open>useMemo\<close>, lines 47-92)\<close>

text \<open>
  The callback reads the clock twice: \<open>now\<close> is the value of \<^verbatim>\<open>new Date()\<close> on line
  49, \<open>today\<close> the value of \<^verbatim>\<open>new Date()\<close> on line 52.
\<close>

definition WEEKLY_TARGET :: int where
  "WEEKLY_TARGET = 9000000"

definition startOfToday :: "int \<Rightarrow> int \<Rightarrow> int" where
  "startOfToday tza today = setHours_0_0_0_0 tza today"

definition todayDay :: "int \<Rightarrow> int \<Rightarrow> int" where
  "todayDay tza now = getDay tza now"

definition offset :: "int \<Rightarrow> int \<Rightarrow> int" where
  "offset tza now =
     (if todayDay tza now < 6 then todayDay tza now + 1 else todayDay tza now - 6)"

definition startOfWeek :: "int \<Rightarrow> int \<Rightarrow> int" where
  "startOfWeek tza now =
     setHours_0_0_0_0 tza (setDate_getDate_minus tza now (offset tza now))"

definition weeklyTransactions :: "int \<Rightarrow> int \<Rightarrow> Transaction list \<Rightarrow> Transaction list" where
  "weeklyTransactions tza now ts = filter (\<lambda>t. timestamp t \<ge> startOfWeek tza now) ts"

definition dailyTransactions ::
  "int \<Rightarrow> int \<Rightarrow> int \<Rightarrow> Transaction list \<Rightarrow> Transaction list" where
  "dailyTransactions tza now today ts =
     filter (\<lambda>t. timestamp t \<ge> startOfToday tza today) (weeklyTransactions tza now ts)"

text \<open>The accumulators of the two \<^verbatim>\<open>reduce\<close> calls.\<close>

record WeekTotals =
  sales :: int

record DayTotals = WeekTotals +
  items :: int

definition weekTotals :: "int \<Rightarrow> int \<Rightarrow> Transaction list \<Rightarrow> WeekTotals" where
  "weekTotals tza now ts =
     foldl (\<lambda>acc t. acc\<lparr>sales := sales acc + quantity t * price t\<rparr>)
       \<lparr>sales = 0\<rparr> (weeklyTransactions tza now ts)"

definition dayTotals :: "int \<Rightarrow> int \<Rightarrow> int \<Rightarrow> Transaction list \<Rightarrow> DayTotals" where
  "dayTotals tza now today ts =
     foldl (\<lambda>acc t. acc\<lparr>sales := sales acc + quantity t * price t,
                       items := items acc + quantity t\<rparr>)
       \<lparr>sales = 0, items = 0\<rparr> (dailyTransactions tza now today ts)"

definition isThursday :: "int \<Rightarrow> int \<Rightarrow> bool" where
  "isThursday tza now \<longleftrightarrow> todayDay tza now = 4"

definition shouldShowWarning :: "int \<Rightarrow> int \<Rightarrow> Transaction list \<Rightarrow> bool" where
  "shouldShowWarning tza now ts \<longleftrightarrow>
     isThursday tza now \<and> sales (weekTotals tza now ts) < WEEKLY_TARGET"

record Summary =
  totalSalesToday :: int
  totalItemsToday :: int
  totalSalesThisWeek :: int
  showWarning :: bool
  transactionsToday :: "Transaction list"

definition summary :: "int \<Rightarrow> int \<Rightarrow> int \<Rightarrow> Transaction list \<Rightarrow> Summary" where
  "summary tza now today ts =
     \<lparr>totalSalesToday = sales (dayTotals tza now today ts),
      totalItemsToday = items (dayTotals tza now today ts),
      totalSalesThisWeek = sales (weekTotals tza now ts),
      showWarning = shouldShowWarning tza now ts,
      transactionsToday = dailyTransactions tza now today ts\<rparr>"

text \<open>
  The definition of the daily list in the words of the specification: the records of
  the whole ledger with a timestamp of at least the start of today.
\<close>

definition spec_dailyTransactions :: "int \<Rightarrow> int \<Rightarrow> Transaction list \<Rightarrow> Transaction list" where
  "spec_dailyTransactions tza today ts = filter (\<lambda>t. timestamp t \<ge> startOfToday tza today) ts"

subsection \<open>The handlers (lines 95-124)\<close>

text \<open>
  \<^verbatim>\<open>handleAddTransaction\<close>: \<open>uuid\<close> is the value of \<^verbatim>\<open>crypto.randomUUID()\<close> and \<open>now\<close>
  the value of \<^verbatim>\<open>Date.now()\<close>. The guard compares \<^verbatim>\<open>Number(quantity)\<close> and
  \<^verbatim>\<open>Number(price)\<close> with 0; a comparison with \<^verbatim>\<open>NaN\<close> is false, which is the last
  case.
\<close>

definition handleAddTransaction :: "jsstring \<Rightarrow> int \<Rightarrow> AppState \<Rightarrow> AppState" where
  "handleAddTransaction uuid now st =
     (case (ToNumber (quantity_field st), ToNumber (price_field st)) of
        (Num q, Num p) \<Rightarrow>
          if trim (productName st) \<noteq> [] \<and> q > 0 \<and> p > 0 then
            let newTransaction =
              \<lparr>id_tx = uuid, name = trim (productName st), quantity = q, price = p,
               timestamp = now\<rparr>
            in st\<lparr>transactions := newTransaction # transactions st,
                  productName := [],
                  quantity_field := Numeric (Num 1),
                  price_field := EmptyString\<rparr>
          else st
      | _ \<Rightarrow> st)"

definition handleDeleteTransaction :: "jsstring \<Rightarrow> AppState \<Rightarrow> AppState" where
  "handleDeleteTransaction i st =
     st\<lparr>transactions := filter (\<lambda>t. id_tx t \<noteq> i) (transactions st)\<rparr>"

text \<open>
  \<^verbatim>\<open>handleClearAll\<close>: \<open>confirmed\<close> is the answer of \<^verbatim>\<open>window.confirm\<close> and \<open>today\<close>
  the value of \<^verbatim>\<open>new Date()\<close> on line 118. \<open>clearUpTo\<close> is the update of line 122 as a
  function of the cutoff \<^verbatim>\<open>startOfTodayTimestamp\<close>.
\<close>

definition clearUpTo :: "int \<Rightarrow> AppState \<Rightarrow> AppState" where
  "clearUpTo startOfTodayTimestamp st =
     st\<lparr>transactions := filter (\<lambda>t. timestamp t < startOfTodayTimestamp) (transactions st)\<rparr>"

definition handleClearAll :: "int \<Rightarrow> bool \<Rightarrow> int \<Rightarrow> AppState \<Rightarrow> AppState" where
  "handleClearAll tza confirmed today st =
     (if confirmed then clearUpTo (setHours_0_0_0_0 tza today) st else st)"

subsection \<open>JSON values\<close>

text \<open>
  \<^verbatim>\<open>JSON.stringify\<close>, \<^verbatim>\<open>JSON.parse\<close> and \<^verbatim>\<open>localStorage\<close> are functions of the platform
  that lines 21, 22 and 35 call. They are modelled after ECMA-262, at the types at which
  the component uses them.

  What \<^verbatim>\<open>JSON.parse\<close> returns has the type \<^verbatim>\<open>any\<close>: a value of JSON. A number of a
  JSON text is taken at its exact decimal value, a rational (JavaScript rounds it to the
  nearest double and keeps the sign of \<open>-0\<close>). An object is the list of its properties
  in creation order; the order in which JavaScript enumerates integer-like keys is not
  modelled.
\<close>

datatype jsvalue =
    JNull
  | JBool bool
  | JNumber rat
  | JString jsstring
  | JArray "jsvalue list"
  | JObject "(jsstring \<times> jsvalue) list"

text \<open>The exceptions that the two \<^verbatim>\<open>try\<close> blocks catch.\<close>

datatype exn = SyntaxError | SecurityError | QuotaExceededError

text \<open>
  The value of a ledger of the data model: an array of objects with the five properties
  in the order in which the object literal of lines 98-104 creates them.
\<close>

definition toValue :: "Transaction \<Rightarrow> jsvalue" where
  "toValue t =
     JObject [(ascii ''id'', JString (id_tx t)), (ascii ''name'', JString (name t)),
              (ascii ''quantity'', JNumber (of_int (quantity t))),
              (ascii ''price'', JNumber (of_int (price t))),
              (ascii ''timestamp'', JNumber (of_int (timestamp t)))]"

definition ledger_value :: "Transaction list \<Rightarrow> jsvalue" where
  "ledger_value ts = JArray (map toValue ts)"

subsection \<open>\<^verbatim>\<open>JSON.stringify\<close> at the type of the ledger\<close>

text \<open>
  QuoteJSONString of ECMAScript: the short escapes; a backslash, \<open>u\<close> and four
  lower-case hexadecimal digits for the other code units below \<open>0x20\<close> and for a
  surrogate that is not part of a pair; and every other code unit as it is.
\<close>

definition hexDigit :: "nat \<Rightarrow> 16 word" where
  "hexDigit n = (if n < 10 then of_nat (48 + n) else of_nat (87 + n))"

definition UnicodeEscape :: "16 word \<Rightarrow> jsstring" where
  "UnicodeEscape c =
     [0x5C, 0x75, hexDigit (unat c div 4096), hexDigit (unat c div 256 mod 16),
      hexDigit (unat c div 16 mod 16), hexDigit (unat c mod 16)]"

definition isLeadingSurrogate :: "16 word \<Rightarrow> bool" where
  "isLeadingSurrogate c \<longleftrightarrow> 0xD800 \<le> c \<and> c \<le> 0xDBFF"

definition isTrailingSurrogate :: "16 word \<Rightarrow> bool" where
  "isTrailingSurrogate c \<longleftrightarrow> 0xDC00 \<le> c \<and> c \<le> 0xDFFF"

fun QuoteJSONChars :: "jsstring \<Rightarrow> jsstring" where
  "QuoteJSONChars [] = []"
| "QuoteJSONChars (c # cs) =
     (if c = 0x08 then [0x5C, 0x62] @ QuoteJSONChars cs
      else if c = 0x09 then [0x5C, 0x74] @ QuoteJSONChars cs
      else if c = 0x0A then [0x5C, 0x6E] @ QuoteJSONChars cs
      else if c = 0x0C then [0x5C, 0x66] @ QuoteJSONChars cs
      else if c = 0x0D then [0x5C, 0x72] @ QuoteJSONChars cs
      else if c = 0x22 then [0x5C, 0x22] @ QuoteJSONChars cs
      else if c = 0x5C then [0x5C, 0x5C] @ QuoteJSONChars cs
      else if c < 0x20 then UnicodeEscape c @ QuoteJSONChars cs
      else if isLeadingSurrogate c then
        (case cs of
           [] \<Rightarrow> UnicodeEscape c
         | d # ds \<Rightarrow>
             if isTrailingSurrogate d then c # d # QuoteJSONChars ds
             else UnicodeEscape c @ QuoteJSONChars cs)
      else if isTrailingSurrogate c then UnicodeEscape c @ QuoteJSONChars cs
      else c # QuoteJSONChars cs)"

definition QuoteJSONString :: "jsstring \<Rightarrow> jsstring" where
  "QuoteJSONString s = 0x22 # QuoteJSONChars s @ [0x22]"

text \<open>Number::toString on an integer: an optional minus sign and the decimal digits.\<close>

definition decimalDigit :: "nat \<Rightarrow> 16 word" where
  "decimalDigit k = of_nat (48 + k)"

fun digits :: "nat \<Rightarrow> jsstring" where
  "digits n = (if n < 10 then [decimalDigit n] else digits (n div 10) @ [decimalDigit (n mod 10)])"

declare digits.simps [simp del]

definition NumberToString :: "int \<Rightarrow> jsstring" where
  "NumberToString n = (if n < 0 then 0x2D # digits (nat (- n)) else digits (nat n))"

text \<open>
  SerializeJSONObject and SerializeJSONArray without indentation, on a transaction and
  on the ledger.
\<close>

definition SerializeTransaction :: "Transaction \<Rightarrow> jsstring" where
  "SerializeTransaction t =
     ascii ''{'' @ QuoteJSONString (ascii ''id'') @ ascii '':'' @ QuoteJSONString (id_tx t) @
     ascii '','' @ QuoteJSONString (ascii ''name'') @ ascii '':'' @ QuoteJSONString (name t) @
     ascii '','' @ QuoteJSONString (ascii ''quantity'') @ ascii '':'' @ NumberToString (quantity t) @
     ascii '','' @ QuoteJSONString (ascii ''price'') @ ascii '':'' @ NumberToString (price t) @
     ascii '','' @ QuoteJSONString (ascii ''timestamp'') @ ascii '':'' @ NumberToString (timestamp t) @
     ascii ''}''"

fun SerializeElements :: "Transaction list \<Rightarrow> jsstring" where
  "SerializeElements [] = []"
| "SerializeElements [t] = SerializeTransaction t"
| "SerializeElements (t # u # us) = SerializeTransaction t @ ascii '','' @ SerializeElements (u # us)"

definition JSON_stringify :: "Transaction list \<Rightarrow> jsstring" where
  "JSON_stringify ts = ascii ''['' @ SerializeElements ts @ ascii '']''"

subsection \<open>\<^verbatim>\<open>JSON.parse\<close>\<close>

text \<open>
  The text is cut into tokens, and an automaton with a stack of open arrays and
  objects reads the tokens; both are total. The scanners return the value read and the
  rest of the text, or \<open>None\<close> where \<^verbatim>\<open>JSON.parse\<close> throws a SyntaxError.
\<close>

datatype token = LBracket | RBracket | LBrace | RBrace | Colon | Comma | Scalar jsvalue

definition isDigit :: "16 word \<Rightarrow> bool" where
  "isDigit c \<longleftrightarrow> 0x30 \<le> c \<and> c \<le> 0x39"

definition digitValue :: "16 word \<Rightarrow> nat" where
  "digitValue c = unat c - 48"

definition decimalValue :: "jsstring \<Rightarrow> nat" where
  "decimalValue s = foldl (\<lambda>a c. 10 * a + digitValue c) 0 s"

definition hexValue :: "16 word \<Rightarrow> nat option" where
  "hexValue c =
     (if isDigit c then Some (unat c - 48)
      else if 0x61 \<le> c \<and> c \<le> 0x66 then Some (unat c - 87)
      else if 0x41 \<le> c \<and> c \<le> 0x46 then Some (unat c - 55)
      else None)"

definition unhex4 :: "16 word \<Rightarrow> 16 word \<Rightarrow> 16 word \<Rightarrow> 16 word \<Rightarrow> 16 word option" where
  "unhex4 a b c d =
     (case (hexValue a, hexValue b, hexValue c, hexValue d) of
        (Some w, Some x, Some y, Some z) \<Rightarrow> Some (of_nat (((w * 16 + x) * 16 + y) * 16 + z))
      | _ \<Rightarrow> None)"

definition escapeChar :: "16 word \<Rightarrow> 16 word option" where
  "escapeChar e =
     (if e = 0x22 then Some 0x22
      else if e = 0x5C then Some 0x5C
      else if e = 0x2F then Some 0x2F
      else if e = 0x62 then Some 0x08
      else if e = 0x66 then Some 0x0C
      else if e = 0x6E then Some 0x0A
      else if e = 0x72 then Some 0x0D
      else if e = 0x74 then Some 0x09
      else None)"

text \<open>
  \<open>scan_string\<close> reads a string literal after its opening quote: escapes are decoded,
  and a code unit below \<open>0x20\<close> is an error.
\<close>

definition prepend :: "16 word \<Rightarrow> (jsstring \<times> jsstring) option \<Rightarrow> (jsstring \<times> jsstring) option" where
  "prepend c r = (case r of None \<Rightarrow> None | Some (s, rest) \<Rightarrow> Some (c # s, rest))"

fun scan_string :: "jsstring \<Rightarrow> (jsstring \<times> jsstring) option" where
  "scan_string [] = None"
| "scan_string (c # cs) =
     (if c = 0x22 then Some ([], cs)
      else if c = 0x5C then
        (case cs of
           [] \<Rightarrow> None
         | e # r \<Rightarrow>
             if e = 0x75 then
               (case r of
                  h1 # h2 # h3 # h4 # r' \<Rightarrow>
                    (case unhex4 h1 h2 h3 h4 of
                       None \<Rightarrow> None
                     | Some u \<Rightarrow> prepend u (scan_string r'))
                | _ \<Rightarrow> None)
             else
               (case escapeChar e of
                  None \<Rightarrow> None
                | Some u \<Rightarrow> prepend u (scan_string r)))
      else if c < 0x20 then None
      else prepend c (scan_string cs))"

text \<open>
  A number is \<^verbatim>\<open>-? (0 | [1-9][0-9]*) (. [0-9]+)? ([eE] [+-]? [0-9]+)?\<close>.
\<close>

definition scan_int :: "jsstring \<Rightarrow> (jsstring \<times> jsstring) option" where
  "scan_int s =
     (case s of
        [] \<Rightarrow> None
      | c # r \<Rightarrow>
          if c = 0x30 then Some ([c], r)
          else if isDigit c then Some (takeWhile isDigit s, dropWhile isDigit s)
          else None)"

definition scan_frac :: "jsstring \<Rightarrow> (jsstring \<times> jsstring) option" where
  "scan_frac s =
     (case s of
        [] \<Rightarrow> Some ([], s)
      | c # r \<Rightarrow>
          if c = 0x2E then
            (if takeWhile isDigit r = [] then None
             else Some (takeWhile isDigit r, dropWhile isDigit r))
          else Some ([], s))"

definition scan_sign :: "jsstring \<Rightarrow> bool \<times> jsstring" where
  "scan_sign s =
     (case s of
        [] \<Rightarrow> (False, s)
      | c # r \<Rightarrow> if c = 0x2D then (True, r) else if c = 0x2B then (False, r) else (False, s))"

definition scan_exp :: "jsstring \<Rightarrow> (int \<times> jsstring) option" where
  "scan_exp s =
     (case s of
        [] \<Rightarrow> Some (0, s)
      | c # r \<Rightarrow>
          if c = 0x65 \<or> c = 0x45 then
            (case scan_sign r of
               (neg, r') \<Rightarrow>
                 if takeWhile isDigit r' = [] then None
                 else Some ((if neg then - 1 else 1) * int (decimalValue (takeWhile isDigit r')),
                            dropWhile isDigit r'))
          else Some (0, s))"

definition mkNumber :: "bool \<Rightarrow> nat \<Rightarrow> int \<Rightarrow> rat" where
  "mkNumber neg m e =
     (if neg then - 1 else 1) * (if 0 \<le> e then of_nat m * 10 ^ nat e else of_nat m / 10 ^ nat (- e))"

definition scan_number :: "jsstring \<Rightarrow> (jsvalue \<times> jsstring) option" where
  "scan_number s =
     (case (case s of [] \<Rightarrow> (False, s) | c # r \<Rightarrow> if c = 0x2D then (True, r) else (False, s)) of
        (neg, s1) \<Rightarrow>
          (case scan_int s1 of
             None \<Rightarrow> None
           | Some (ip, s2) \<Rightarrow>
               (case scan_frac s2 of
                  None \<Rightarrow> None
                | Some (fp, s3) \<Rightarrow>
                    (case scan_exp s3 of
                       None \<Rightarrow> None
                     | Some (e, s4) \<Rightarrow>
                         Some (JNumber (mkNumber neg (decimalValue (ip @ fp)) (e - int (length fp))),
                               s4)))))"

definition isJSONWhiteSpace :: "16 word \<Rightarrow> bool" where
  "isJSONWhiteSpace c \<longleftrightarrow> c = 0x20 \<or> c = 0x09 \<or> c = 0x0A \<or> c = 0x0D"

function tokenize :: "jsstring \<Rightarrow> token list option" where
  "tokenize [] = Some []"
| "tokenize (c # cs) =
     (if isJSONWhiteSpace c then tokenize cs
      else if c = 0x5B then map_option ((#) LBracket) (tokenize cs)
      else if c = 0x5D then map_option ((#) RBracket) (tokenize cs)
      else if c = 0x7B then map_option ((#) LBrace) (tokenize cs)
      else if c = 0x7D then map_option ((#) RBrace) (tokenize cs)
      else if c = 0x3A then map_option ((#) Colon) (tokenize cs)
      else if c = 0x2C then map_option ((#) Comma) (tokenize cs)
      else if c = 0x22 then
        (case scan_string cs of
           None \<Rightarrow> None
         | Some (s, rest) \<Rightarrow> map_option ((#) (Scalar (JString s))) (tokenize rest))
      else if c = 0x2D \<or> isDigit c then
        (case scan_number (c # cs) of
           None \<Rightarrow> None
         | Some (v, rest) \<Rightarrow> map_option ((#) (Scalar v)) (tokenize rest))
      else if take 4 (c # cs) = ascii ''true'' then
        map_option ((#) (Scalar (JBool True))) (tokenize (drop 3 cs))
      else if take 5 (c # cs) = ascii ''false'' then
        map_option ((#) (Scalar (JBool False))) (tokenize (drop 4 cs))
      else if take 4 (c # cs) = ascii ''null'' then
        map_option ((#) (Scalar JNull)) (tokenize (drop 3 cs))
      else None)"
  by pat_completeness auto

text \<open>Every scanner consumes some of the text, so \<open>tokenize\<close> terminates.\<close>

termination
proof -
  have scan_string_length: "length rest < length s" if "scan_string s = Some (v, rest)" for s v rest
    using that
  proof (induction s arbitrary: v rest rule: scan_string.induct)
    case 1
    then show ?case by simp
  next
    case (2 c cs)
    then show ?case
      by (auto simp: prepend_def split: if_splits list.splits option.splits) fastforce+
  qed
  have scan_int_length: "length rest < length s" if "scan_int s = Some (v, rest)" for s v rest
    using that
    by (auto simp: scan_int_def less_Suc_eq_le length_dropWhile_le split: list.splits if_splits)
  have scan_frac_length: "length rest \<le> length s" if "scan_frac s = Some (v, rest)" for s v rest
    using that
    by (auto simp: scan_frac_def le_SucI length_dropWhile_le split: list.splits if_splits)
  have scan_sign_length: "length rest \<le> length s" if "scan_sign s = (neg, rest)" for s neg rest
    using that by (auto simp: scan_sign_def split: list.splits if_splits)
  have scan_exp_length: "length rest \<le> length s" if a: "scan_exp s = Some (v, rest)" for s v rest
  proof (cases s)
    case Nil
    with a show ?thesis by (simp add: scan_exp_def)
  next
    case (Cons c r)
    obtain neg r' where sg: "scan_sign r = (neg, r')" by (cases "scan_sign r")
    then have "length r' \<le> length r" by (rule scan_sign_length)
    moreover have "length (dropWhile isDigit r') \<le> length r'" by (rule length_dropWhile_le)
    ultimately show ?thesis
      using a Cons sg by (auto simp: scan_exp_def split: if_splits)
  qed
  have scan_number_length: "length rest < length s" if a: "scan_number s = Some (v, rest)" for s v rest
  proof -
    define s1 where
      "s1 = snd (case s of [] \<Rightarrow> (False, s) | c # r \<Rightarrow> if c = 0x2D then (True, r) else (False, s))"
    have l1: "length s1 \<le> length s"
      by (auto simp: s1_def split: list.splits)
    from a obtain ip s2 fp s3 e where
      "scan_int s1 = Some (ip, s2)" "scan_frac s2 = Some (fp, s3)" "scan_exp s3 = Some (e, rest)"
      by (auto simp: scan_number_def s1_def split: list.splits if_splits option.splits prod.splits)
    then have "length s2 < length s1" "length s3 \<le> length s2" "length rest \<le> length s3"
      by (auto dest: scan_int_length scan_frac_length scan_exp_length)
    with l1 show ?thesis by linarith
  qed
  show ?thesis
    by (relation "measure length")
      (auto dest: scan_string_length scan_number_length simp: less_Suc_eq_le)
qed

text \<open>
  The states of the automaton say what may come next; a frame of the stack is an array
  or an object under construction, or an object with the key whose value is being read.
  A property defined twice keeps its first place and takes the later value.
\<close>

datatype frame =
    ArrayFrame "jsvalue list"
  | ObjectFrame "(jsstring \<times> jsvalue) list"
  | MemberFrame "(jsstring \<times> jsvalue) list" jsstring

datatype pstate =
    ExpectValue "frame list"
  | ExpectValueOrEnd "frame list"
  | ExpectKeyOrEnd "frame list"
  | ExpectKey "frame list"
  | ExpectColon "frame list"
  | ExpectSeparator "frame list"
  | Finished jsvalue
  | Failed

fun CreateDataProperty ::
  "jsstring \<Rightarrow> jsvalue \<Rightarrow> (jsstring \<times> jsvalue) list \<Rightarrow> (jsstring \<times> jsvalue) list" where
  "CreateDataProperty k v [] = [(k, v)]"
| "CreateDataProperty k v ((k', v') # ms) =
     (if k' = k then (k, v) # ms else (k', v') # CreateDataProperty k v ms)"

fun complete :: "jsvalue \<Rightarrow> frame list \<Rightarrow> pstate" where
  "complete v [] = Finished v"
| "complete v (ArrayFrame elems # stack) = ExpectSeparator (ArrayFrame (elems @ [v]) # stack)"
| "complete v (MemberFrame members key # stack) =
     ExpectSeparator (ObjectFrame (CreateDataProperty key v members) # stack)"
| "complete v (ObjectFrame members # stack) = Failed"

fun begin_value :: "token \<Rightarrow> frame list \<Rightarrow> pstate" where
  "begin_value (Scalar v) stack = complete v stack"
| "begin_value LBracket stack = ExpectValueOrEnd (ArrayFrame [] # stack)"
| "begin_value LBrace stack = ExpectKeyOrEnd (ObjectFrame [] # stack)"
| "begin_value _ stack = Failed"

fun begin_member :: "token \<Rightarrow> frame list \<Rightarrow> pstate" where
  "begin_member (Scalar (JString key)) (ObjectFrame members # stack) =
     ExpectColon (MemberFrame members key # stack)"
| "begin_member _ _ = Failed"

fun end_array :: "frame list \<Rightarrow> pstate" where
  "end_array (ArrayFrame elems # stack) = complete (JArray elems) stack"
| "end_array _ = Failed"

fun end_object :: "frame list \<Rightarrow> pstate" where
  "end_object (ObjectFrame members # stack) = complete (JObject members) stack"
| "end_object _ = Failed"

fun step :: "pstate \<Rightarrow> token \<Rightarrow> pstate" where
  "step (ExpectValue stack) tok = begin_value tok stack"
| "step (ExpectValueOrEnd stack) tok =
     (if tok = RBracket then end_array stack else begin_value tok stack)"
| "step (ExpectKeyOrEnd stack) tok =
     (if tok = RBrace then end_object stack else begin_member tok stack)"
| "step (ExpectKey stack) tok = begin_member tok stack"
| "step (ExpectColon stack) tok = (if tok = Colon then ExpectValue stack else Failed)"
| "step (ExpectSeparator stack) tok =
     (case stack of
        ArrayFrame elems # below \<Rightarrow>
          if tok = Comma then ExpectValue stack
          else if tok = RBracket then end_array stack
          else Failed
      | ObjectFrame members # below \<Rightarrow>
          if tok = Comma then ExpectKey stack
          else if tok = RBrace then end_object stack
          else Failed
      | _ \<Rightarrow> Failed)"
| "step (Finished v) tok = Failed"
| "step Failed tok = Failed"

definition JSON_parse :: "jsstring \<Rightarrow> exn + jsvalue" where
  "JSON_parse text =
     (case tokenize text of
        None \<Rightarrow> Inl SyntaxError
      | Some tokens \<Rightarrow>
          (case foldl step (ExpectValue []) tokens of
             Finished v \<Rightarrow> Inr v
           | _ \<Rightarrow> Inl SyntaxError))"

text \<open>The tokens of the text of a transaction and of the elements of a ledger.\<close>

definition transaction_tokens :: "Transaction \<Rightarrow> token list" where
  "transaction_tokens t =
     [LBrace, Scalar (JString (ascii ''id'')), Colon, Scalar (JString (id_tx t)), Comma,
      Scalar (JString (ascii ''name'')), Colon, Scalar (JString (name t)), Comma,
      Scalar (JString (ascii ''quantity'')), Colon, Scalar (JNumber (of_int (quantity t))), Comma,
      Scalar (JString (ascii ''price'')), Colon, Scalar (JNumber (of_int (price t))), Comma,
      Scalar (JString (ascii ''timestamp'')), Colon, Scalar (JNumber (of_int (timestamp t))),
      RBrace]"

fun element_tokens :: "Transaction list \<Rightarrow> token list" where
  "element_tokens [] = []"
| "element_tokens [t] = transaction_tokens t"
| "element_tokens (t # u # us) = transaction_tokens t @ Comma # element_tokens (u # us)"

subsection \<open>The storage, \<open>load\<close> and \<open>persist\<close> (lines 19-27 and 33-39)\<close>

text \<open>
  The slot \<^verbatim>\<open>dailySales\<close> of \<^verbatim>\<open>localStorage\<close>. Access throws a SecurityError where the
  storage is denied to the page, and \<^verbatim>\<open>setItem\<close> throws a QuotaExceededError when the
  text does not fit; \<open>quota\<close> is the number of code units that the slot can take.
\<close>

record Storage =
  available :: bool
  quota :: nat
  dailySales :: "jsstring option"

definition getItem :: "Storage \<Rightarrow> exn + jsstring option" where
  "getItem store = (if available store then Inr (dailySales store) else Inl SecurityError)"

definition setItem :: "jsstring \<Rightarrow> Storage \<Rightarrow> exn + Storage" where
  "setItem text store =
     (if \<not> available store then Inl SecurityError
      else if quota store < length text then Inl QuotaExceededError
      else Inr (store\<lparr>dailySales := Some text\<rparr>))"

text \<open>
  \<open>load\<close> is the initializer of \<^verbatim>\<open>useState\<close>: the \<^verbatim>\<open>catch\<close> block returns the empty
  array, and so does a slot that is absent or holds the empty string (both are falsy).
  \<open>persist\<close> is the effect of lines 33-39: when \<^verbatim>\<open>setItem\<close> throws, the error is logged
  and the storage stays as it was.
\<close>

definition load :: "Storage \<Rightarrow> jsvalue" where
  "load store =
     (case getItem store of
        Inl error \<Rightarrow> JArray []
      | Inr saved \<Rightarrow>
          (case saved of
             None \<Rightarrow> JArray []
           | Some text \<Rightarrow>
               if text = [] then JArray []
               else (case JSON_parse text of Inl error \<Rightarrow> JArray [] | Inr v \<Rightarrow> v)))"

definition persist :: "Transaction list \<Rightarrow> Storage \<Rightarrow> Storage" where
  "persist ts store =
     (case setItem (JSON_stringify ts) store of Inl error \<Rightarrow> store | Inr store' \<Rightarrow> store')"

section \<open>Properties\<close>

subsection \<open>Dates: the day and the Saturday week\<close>

lemmas date_defs = getDay_def WeekDay_def Day_def LocalTime_def UTC_def msPerDay_def
  setHours_0_0_0_0_def setDate_getDate_minus_def startOfToday_def todayDay_def offset_def
  startOfWeek_def

lemmas summary_defs = summary_def shouldShowWarning_def isThursday_def WEEKLY_TARGET_def
  weekTotals_def dayTotals_def weeklyTransactions_def dailyTransactions_def
  spec_dailyTransactions_def

lemma todayDay_range: "0 \<le> todayDay tza now \<and> todayDay tza now < 7"
  by (simp add: todayDay_def getDay_def WeekDay_def)

lemma offset_range: "0 \<le> offset tza now \<and> offset tza now \<le> 6"
  using todayDay_range [of tza now] by (simp add: offset_def)

lemma setHours_mono: "a \<le> b \<Longrightarrow> setHours_0_0_0_0 tza a \<le> setHours_0_0_0_0 tza b"
  by (simp add: setHours_0_0_0_0_def UTC_def LocalTime_def Day_def msPerDay_def zdiv_mono1)

lemma Day_shift: "Day (t - n * msPerDay) = Day t - n"
  unfolding Day_def msPerDay_def by simp

lemma Day_midnight: "Day (d * msPerDay) = d"
  by (simp add: Day_def msPerDay_def)

lemma LocalTime_setDate:
  "LocalTime tza (setDate_getDate_minus tza d n) = LocalTime tza d - n * msPerDay"
  by (simp add: setDate_getDate_minus_def UTC_def LocalTime_def)

lemma LocalTime_setHours:
  "LocalTime tza (setHours_0_0_0_0 tza d) = Day (LocalTime tza d) * msPerDay"
  by (simp add: setHours_0_0_0_0_def UTC_def LocalTime_def)

text \<open>
  The week never starts after the day: the offset is at least 0 at every weekday index,
  and the second reading of the clock is not before the first.
\<close>

lemma startOfWeek_le_startOfToday:
  assumes "now \<le> today"
  shows "startOfWeek tza now \<le> startOfToday tza today"
proof -
  have "setDate_getDate_minus tza now (offset tza now) \<le> now"
    using offset_range [of tza now]
    by (simp add: setDate_getDate_minus_def UTC_def LocalTime_def msPerDay_def)
  then have "setDate_getDate_minus tza now (offset tza now) \<le> today"
    using assms by simp
  then show ?thesis
    unfolding startOfWeek_def startOfToday_def by (rule setHours_mono)
qed

lemma startOfWeek_eq:
  "startOfWeek tza now = startOfToday tza now - offset tza now * msPerDay"
proof -
  have "startOfWeek tza now = UTC tza ((Day (LocalTime tza now) - offset tza now) * msPerDay)"
    unfolding startOfWeek_def
      setHours_0_0_0_0_def [of tza "setDate_getDate_minus tza now (offset tza now)"]
    by (simp only: LocalTime_setDate Day_shift)
  then show ?thesis
    by (simp add: startOfToday_def setHours_0_0_0_0_def UTC_def left_diff_distrib)
qed

lemma week_start_weekday:
  fixes D :: int
  shows "(D - (if (D + 4) mod 7 < 6 then (D + 4) mod 7 + 1 else (D + 4) mod 7 - 6) + 4) mod 7 = 6"
proof (cases "(D + 4) mod 7 < 6")
  case True
  have "D + 4 - (D + 4) mod 7 = 7 * ((D + 4) div 7)"
    by (simp add: minus_mod_eq_mult_div)
  then have "D - ((D + 4) mod 7 + 1) + 4 = 7 * ((D + 4) div 7) - 1"
    by simp
  moreover have "(7 * ((D + 4) div 7) - 1) mod 7 = (6::int)"
    by (simp add: mod_diff_left_eq [symmetric])
  ultimately have "(D - ((D + 4) mod 7 + 1) + 4) mod 7 = 6"
    by (simp only:)
  with True show ?thesis by (simp only: if_True)
next
  case False
  moreover have "(D + 4) mod 7 < 7" by simp
  ultimately have "(D + 4) mod 7 = 6" by linarith
  then show ?thesis by simp
qed

text \<open>The start of the week is a local midnight of a Saturday (weekday index 6).\<close>

lemma startOfWeek_is_Saturday: "getDay tza (startOfWeek tza now) = 6"
proof -
  have "getDay tza (startOfWeek tza now) = (Day (LocalTime tza now) - offset tza now + 4) mod 7"
    unfolding startOfWeek_def getDay_def WeekDay_def
    by (simp only: LocalTime_setHours LocalTime_setDate Day_shift Day_midnight)
  also have "\<dots> = 6"
    unfolding offset_def todayDay_def getDay_def WeekDay_def by (rule week_start_weekday)
  finally show ?thesis .
qed

subsection \<open>The totals as sums\<close>

lemma foldl_week_sales:
  "sales (foldl (\<lambda>acc t. acc\<lparr>sales := sales acc + quantity t * price t\<rparr>) (a::WeekTotals) xs) =
     sales a + (\<Sum>t\<leftarrow>xs. quantity t * price t)"
  by (induction xs arbitrary: a) simp_all

lemma foldl_day_sales:
  "sales (foldl (\<lambda>acc t. acc\<lparr>sales := sales acc + quantity t * price t,
                              items := items acc + quantity t\<rparr>) (a::DayTotals) xs) =
     sales a + (\<Sum>t\<leftarrow>xs. quantity t * price t)"
  by (induction xs arbitrary: a) simp_all

lemma foldl_day_items:
  "items (foldl (\<lambda>acc t. acc\<lparr>sales := sales acc + quantity t * price t,
                              items := items acc + quantity t\<rparr>) (a::DayTotals) xs) =
     items a + (\<Sum>t\<leftarrow>xs. quantity t)"
  by (induction xs arbitrary: a) simp_all

lemma totalSalesThisWeek_sum:
  "totalSalesThisWeek (summary tza now today ts) =
     (\<Sum>t\<leftarrow>weeklyTransactions tza now ts. quantity t * price t)"
  by (simp add: summary_def weekTotals_def foldl_week_sales)

lemma totalSalesToday_sum:
  "totalSalesToday (summary tza now today ts) =
     (\<Sum>t\<leftarrow>dailyTransactions tza now today ts. quantity t * price t)"
  by (simp add: summary_def dayTotals_def foldl_day_sales)

lemma totalItemsToday_sum:
  "totalItemsToday (summary tza now today ts) =
     (\<Sum>t\<leftarrow>dailyTransactions tza now today ts. quantity t)"
  by (simp add: summary_def dayTotals_def foldl_day_items)

lemma sum_list_filter_le:
  fixes f :: "'a \<Rightarrow> int"
  assumes "\<forall>x\<in>set xs. 0 \<le> f x"
  shows "(\<Sum>x\<leftarrow>filter P xs. f x) \<le> (\<Sum>x\<leftarrow>xs. f x)"
  using assms by (induction xs) auto

lemma count_list_filter:
  "count_list (filter P xs) x = (if P x then count_list xs x else 0)"
  by (induction xs) auto

text \<open>
  The daily list is the direct filter of the ledger whenever the second reading of the
  clock is not before the first.
\<close>

lemma dailyTransactions_direct:
  assumes "now \<le> today"
  shows "dailyTransactions tza now today ts = spec_dailyTransactions tza today ts"
proof -
  have "startOfWeek tza now \<le> startOfToday tza today"
    using assms by (rule startOfWeek_le_startOfToday)
  then have "filter (\<lambda>t. startOfWeek tza now \<le> timestamp t \<and> startOfToday tza today \<le> timestamp t) ts =
      filter (\<lambda>t. startOfToday tza today \<le> timestamp t) ts"
    by (intro filter_cong) auto
  then show ?thesis
    by (simp add: dailyTransactions_def weeklyTransactions_def spec_dailyTransactions_def)
qed

text \<open>
  Every record that \<open>handleAddTransaction\<close> creates has a quantity of at least 1 and a
  price of at least 0, and the other handlers only remove records: the handlers keep
  the bounds of the data model on the amounts.
\<close>

lemma handlers_keep_amounts:
  assumes "\<forall>t\<in>set (transactions st). 1 \<le> quantity t \<and> 0 \<le> price t"
  shows "\<forall>t\<in>set (transactions (handleAddTransaction uuid now st)). 1 \<le> quantity t \<and> 0 \<le> price t"
    and "\<forall>t\<in>set (transactions (handleDeleteTransaction i st)). 1 \<le> quantity t \<and> 0 \<le> price t"
    and "\<forall>t\<in>set (transactions (handleClearAll tza c today st)). 1 \<le> quantity t \<and> 0 \<le> price t"
  using assms
  by (auto simp: handleAddTransaction_def handleDeleteTransaction_def handleClearAll_def
      clearUpTo_def Let_def split: jsnumber.splits)

subsection \<open>The text of a ledger parses to the ledger\<close>

lemma unat_code_unit: "n < 65536 \<Longrightarrow> unat (of_nat n :: 16 word) = n"
  by (simp add: unat_of_nat)

lemma unat_hexDigit: "n < 16 \<Longrightarrow> unat (hexDigit n) = (if n < 10 then 48 + n else 87 + n)"
  unfolding hexDigit_def by (simp add: unat_code_unit del: of_nat_add)

lemma hexValue_hexDigit:
  assumes "n < 16"
  shows "hexValue (hexDigit n) = Some n"
  using assms unat_hexDigit [OF assms]
  by (simp add: hexValue_def isDigit_def word_le_nat_alt)

lemma hex_recompose:
  fixes n :: nat
  shows "((n div 4096 * 16 + n div 256 mod 16) * 16 + n div 16 mod 16) * 16 + n mod 16 = n"
proof -
  have a: "n div 4096 = n div 256 div 16" and b: "n div 256 = n div 16 div 16"
    by (simp_all add: div_mult2_eq [symmetric])
  have "n div 4096 * 16 + n div 256 mod 16 = n div 256"
    unfolding a by (rule div_mult_mod_eq)
  moreover have "n div 256 * 16 + n div 16 mod 16 = n div 16"
    unfolding b by (rule div_mult_mod_eq)
  moreover have "n div 16 * 16 + n mod 16 = n"
    by (rule div_mult_mod_eq)
  ultimately show ?thesis by (simp only:)
qed

lemma unhex4_UnicodeEscape:
  "unhex4 (hexDigit (unat c div 4096)) (hexDigit (unat c div 256 mod 16))
     (hexDigit (unat c div 16 mod 16)) (hexDigit (unat c mod 16)) = Some c"
proof -
  have lt: "unat c < 65536" using unsigned_less [of c, where 'a = nat] by simp
  then have "unat c div 4096 < 16" by simp
  then have "unhex4 (hexDigit (unat c div 4096)) (hexDigit (unat c div 256 mod 16))
     (hexDigit (unat c div 16 mod 16)) (hexDigit (unat c mod 16)) =
     Some (of_nat (((unat c div 4096 * 16 + unat c div 256 mod 16) * 16 + unat c div 16 mod 16) * 16 +
       unat c mod 16))"
    by (simp only: unhex4_def hexValue_hexDigit mod_less_divisor zero_less_numeral prod.case
        option.case)
  then show ?thesis
    by (simp only: hex_recompose) simp
qed

lemma scan_string_UnicodeEscape:
  "scan_string (UnicodeEscape c @ r) = prepend c (scan_string r)"
  by (simp add: UnicodeEscape_def unhex4_UnicodeEscape)

lemma surrogate_raw:
  assumes "isLeadingSurrogate c \<or> isTrailingSurrogate c"
  shows "c \<noteq> 0x08 \<and> c \<noteq> 0x09 \<and> c \<noteq> 0x0A \<and> c \<noteq> 0x0C \<and> c \<noteq> 0x0D \<and> c \<noteq> 0x22 \<and>
         c \<noteq> 0x5C \<and> \<not> c < 0x20"
  using assms
  by (auto simp: isLeadingSurrogate_def isTrailingSurrogate_def word_le_nat_alt word_less_nat_alt)

lemma scan_string_QuoteJSONChars:
  "scan_string (QuoteJSONChars s @ 0x22 # rest) = Some (s, rest)"
proof (induction s rule: length_induct)
  case (1 s)
  show ?case
  proof (cases s)
    case Nil
    then show ?thesis by simp
  next
    case (Cons c cs)
    have ih: "scan_string (QuoteJSONChars cs @ 0x22 # rest) = Some (cs, rest)"
      using 1 Cons by simp
    consider
      (short) "c = 0x08 \<or> c = 0x09 \<or> c = 0x0A \<or> c = 0x0C \<or> c = 0x0D \<or> c = 0x22 \<or> c = 0x5C"
      | (control) "c \<noteq> 0x08" "c \<noteq> 0x09" "c \<noteq> 0x0A" "c \<noteq> 0x0C" "c \<noteq> 0x0D" "c \<noteq> 0x22"
          "c \<noteq> 0x5C" "c < 0x20"
      | (lead) "isLeadingSurrogate c"
      | (trail) "\<not> isLeadingSurrogate c" "isTrailingSurrogate c"
      | (raw) "c \<noteq> 0x08" "c \<noteq> 0x09" "c \<noteq> 0x0A" "c \<noteq> 0x0C" "c \<noteq> 0x0D" "c \<noteq> 0x22"
          "c \<noteq> 0x5C" "\<not> c < 0x20" "\<not> isLeadingSurrogate c" "\<not> isTrailingSurrogate c"
      by blast
    then show ?thesis
    proof cases
      case short
      then show ?thesis
        by (elim disjE) (simp_all add: Cons ih escapeChar_def prepend_def)
    next
      case control
      then show ?thesis
        by (simp add: Cons ih scan_string_UnicodeEscape prepend_def)
    next
      case lead
      note n = surrogate_raw [OF disjI1, OF lead]
      show ?thesis
      proof (cases cs)
        case Nil
        with lead n show ?thesis
          by (simp add: Cons scan_string_UnicodeEscape prepend_def)
      next
        case c2: (Cons d ds)
        show ?thesis
        proof (cases "isTrailingSurrogate d")
          case True
          note m = surrogate_raw [OF disjI2, OF True]
          have "scan_string (QuoteJSONChars ds @ 0x22 # rest) = Some (ds, rest)"
            using 1 Cons c2 by simp
          with lead n True m show ?thesis
            by (simp add: Cons c2 prepend_def)
        next
          case False
          with lead n ih show ?thesis
            by (simp add: Cons c2 scan_string_UnicodeEscape prepend_def)
        qed
      qed
    next
      case trail
      note n = surrogate_raw [OF disjI2, OF trail(2)]
      with trail ih show ?thesis
        by (simp add: Cons scan_string_UnicodeEscape prepend_def)
    next
      case raw
      then show ?thesis
        by (simp add: Cons ih prepend_def)
    qed
  qed
qed

lemma tokenize_QuoteJSONString:
  "tokenize (QuoteJSONString s @ rest) = map_option ((#) (Scalar (JString s))) (tokenize rest)"
  by (simp add: QuoteJSONString_def scan_string_QuoteJSONChars isJSONWhiteSpace_def)

lemma unat_decimalDigit: "k < 10 \<Longrightarrow> unat (decimalDigit k) = 48 + k"
  unfolding decimalDigit_def by (rule unat_code_unit) simp

lemma digit_code:
  assumes "k < 10"
  shows "isDigit (decimalDigit k)" and "digitValue (decimalDigit k) = k"
    and "decimalDigit k = 0x30 \<longleftrightarrow> k = 0"
  using assms unat_decimalDigit [OF assms]
  by (simp_all add: isDigit_def digitValue_def word_le_nat_alt
      word_eq_iff_unsigned [where 'a = nat])

lemma isDigit_other:
  assumes "isDigit c"
  shows "\<not> isJSONWhiteSpace c" and "c \<noteq> 0x5B" and "c \<noteq> 0x5D" and "c \<noteq> 0x7B" and "c \<noteq> 0x7D"
    and "c \<noteq> 0x3A" and "c \<noteq> 0x2C" and "c \<noteq> 0x22" and "c \<noteq> 0x2D"
  using assms by (auto simp: isDigit_def isJSONWhiteSpace_def word_le_nat_alt)

lemma digits_isDigit: "c \<in> set (digits n) \<Longrightarrow> isDigit c"
proof (induction n arbitrary: c rule: digits.induct)
  case (1 n)
  then show ?case
    by (subst (asm) (2) digits.simps) (auto simp: digit_code split: if_splits)
qed

lemma digits_nonempty: "digits n \<noteq> []"
  by (subst digits.simps) simp

lemma decimalValue_snoc: "decimalValue (s @ [c]) = 10 * decimalValue s + digitValue c"
  by (simp add: decimalValue_def)

lemma decimalValue_digits: "decimalValue (digits n) = n"
proof (induction n rule: digits.induct)
  case (1 n)
  show ?case
  proof (cases "n < 10")
    case True
    then show ?thesis
      by (subst digits.simps) (simp add: decimalValue_def digit_code)
  next
    case False
    with 1 have "decimalValue (digits (n div 10)) = n div 10" by simp
    with False show ?thesis
      by (subst digits.simps) (simp add: decimalValue_snoc digit_code)
  qed
qed

lemma hd_digits: "0 < n \<Longrightarrow> hd (digits n) \<noteq> 0x30"
proof (induction n rule: digits.induct)
  case (1 n)
  show ?case
  proof (cases "n < 10")
    case True
    with 1(2) show ?thesis
      by (subst digits.simps) (simp add: digit_code)
  next
    case False
    with 1 have "hd (digits (n div 10)) \<noteq> 0x30" by simp
    with False show ?thesis
      by (subst digits.simps) (simp add: digits_nonempty)
  qed
qed

lemma scan_int_digits:
  assumes "\<not> isDigit sep"
  shows "scan_int (digits n @ sep # rest) = Some (digits n, sep # rest)"
proof (cases "n = 0")
  case True
  then show ?thesis
    by (simp add: digits.simps scan_int_def decimalDigit_def)
next
  case False
  obtain d ds where ds: "digits n = d # ds"
    using digits_nonempty [of n] by (cases "digits n") auto
  have all: "\<And>x. x \<in> set (digits n) \<Longrightarrow> isDigit x"
    by (rule digits_isDigit)
  have "d \<noteq> 0x30"
    using hd_digits [of n] False ds by simp
  moreover have "isDigit d"
    using all ds by simp
  moreover have "takeWhile isDigit (digits n @ sep # rest) = digits n"
    using assms all by (simp add: takeWhile_append2)
  moreover have "dropWhile isDigit (digits n @ sep # rest) = sep # rest"
    using assms all by (simp add: dropWhile_append2)
  ultimately show ?thesis
    unfolding scan_int_def by (simp add: ds)
qed

lemma scan_number_NumberToString:
  assumes "sep = 0x2C \<or> sep = 0x7D"
  shows "scan_number (NumberToString n @ sep # rest) = Some (JNumber (of_int n), sep # rest)"
proof -
  have sep: "\<not> isDigit sep" "sep \<noteq> 0x2E" "sep \<noteq> 0x65" "sep \<noteq> 0x45"
    using assms by (auto simp: isDigit_def)
  have tail: "scan_frac (sep # rest) = Some ([], sep # rest)" "scan_exp (sep # rest) = Some (0, sep # rest)"
    using sep by (simp_all add: scan_frac_def scan_exp_def)
  show ?thesis
  proof (cases "n < 0")
    case True
    then have "rat_of_int n = - of_nat (nat (- n))" by simp
    with True show ?thesis
      by (simp add: NumberToString_def scan_number_def scan_int_digits [OF sep(1)] tail
          decimalValue_digits mkNumber_def del: of_nat_nat)
  next
    case False
    obtain d ds where ds: "digits (nat n) = d # ds"
      using digits_nonempty [of "nat n"] by (cases "digits (nat n)") auto
    have "isDigit d"
      using digits_isDigit [of d "nat n"] ds by simp
    then have "d \<noteq> 0x2D" by (rule isDigit_other)
    moreover have "scan_int (d # ds @ sep # rest) = Some (d # ds, sep # rest)"
      using scan_int_digits [OF sep(1), of "nat n" rest] ds by simp
    moreover have "decimalValue (d # ds) = nat n"
      using decimalValue_digits [of "nat n"] ds by simp
    ultimately show ?thesis
      using False by (simp add: NumberToString_def scan_number_def ds tail mkNumber_def)
  qed
qed

lemma tokenize_NumberToString:
  assumes "sep = 0x2C \<or> sep = 0x7D"
  shows "tokenize (NumberToString n @ sep # rest) =
           map_option ((#) (Scalar (JNumber (of_int n)))) (tokenize (sep # rest))"
proof -
  obtain c cs where cs: "NumberToString n = c # cs" and c: "c = 0x2D \<or> isDigit c"
  proof (cases "n < 0")
    case True
    then show ?thesis using that by (simp add: NumberToString_def)
  next
    case False
    obtain d ds where ds: "digits (nat n) = d # ds"
      using digits_nonempty [of "nat n"] by (cases "digits (nat n)") auto
    moreover have "isDigit d"
      using digits_isDigit [of d "nat n"] ds by simp
    ultimately show ?thesis using that False by (simp add: NumberToString_def)
  qed
  have "scan_number (c # cs @ sep # rest) = Some (JNumber (of_int n), sep # rest)"
    using scan_number_NumberToString [OF assms, of n rest] cs by simp
  moreover have "\<not> isJSONWhiteSpace c" "c \<noteq> 0x5B" "c \<noteq> 0x5D" "c \<noteq> 0x7B" "c \<noteq> 0x7D"
    "c \<noteq> 0x3A" "c \<noteq> 0x2C" "c \<noteq> 0x22"
    using c by (auto simp: isJSONWhiteSpace_def dest: isDigit_other)
  ultimately show ?thesis
    using c by (simp add: cs)
qed

lemma tokenize_punctuation:
  "tokenize (0x5B # cs) = map_option ((#) LBracket) (tokenize cs)"
  "tokenize (0x5D # cs) = map_option ((#) RBracket) (tokenize cs)"
  "tokenize (0x7B # cs) = map_option ((#) LBrace) (tokenize cs)"
  "tokenize (0x7D # cs) = map_option ((#) RBrace) (tokenize cs)"
  "tokenize (0x3A # cs) = map_option ((#) Colon) (tokenize cs)"
  "tokenize (0x2C # cs) = map_option ((#) Comma) (tokenize cs)"
  by (simp_all add: isJSONWhiteSpace_def)

lemma ascii_punctuation:
  "ascii ''['' = [0x5B]" "ascii '']'' = [0x5D]" "ascii ''{'' = [0x7B]" "ascii ''}'' = [0x7D]"
  "ascii '':'' = [0x3A]" "ascii '','' = [0x2C]"
  by (simp_all add: ascii_def)

lemma tokenize_SerializeTransaction:
  "tokenize (SerializeTransaction t @ rest) = map_option ((@) (transaction_tokens t)) (tokenize rest)"
  unfolding SerializeTransaction_def transaction_tokens_def ascii_punctuation
  by (cases "tokenize rest")
    (simp_all only: append_Cons append_Nil append_assoc tokenize_punctuation tokenize_QuoteJSONString
      tokenize_NumberToString [OF disjI1, OF refl] tokenize_NumberToString [OF disjI2, OF refl]
      option.map list.simps)

lemma tokenize_SerializeElements:
  "tokenize (SerializeElements ts @ rest) = map_option ((@) (element_tokens ts)) (tokenize rest)"
proof (induction ts rule: SerializeElements.induct)
  case 1
  show ?case by (cases "tokenize rest") simp_all
next
  case (2 t)
  show ?case by (simp add: tokenize_SerializeTransaction)
next
  case (3 t u us)
  then show ?case
    by (cases "tokenize rest")
      (simp_all add: tokenize_SerializeTransaction ascii_punctuation tokenize_punctuation del: tokenize.simps)
qed

lemma tokenize_JSON_stringify:
  "tokenize (JSON_stringify ts) = Some (LBracket # element_tokens ts @ [RBracket])"
proof -
  have "tokenize [0x5D] = Some [RBracket]"
    by (simp add: tokenize_punctuation del: tokenize.simps(2))
  then show ?thesis
    unfolding JSON_stringify_def ascii_punctuation
    by (simp add: tokenize_punctuation tokenize_SerializeElements del: tokenize.simps(2))
qed

lemma keys_distinct:
  "ascii ''id'' \<noteq> ascii ''name''" "ascii ''id'' \<noteq> ascii ''quantity''" "ascii ''id'' \<noteq> ascii ''price''"
  "ascii ''id'' \<noteq> ascii ''timestamp''" "ascii ''name'' \<noteq> ascii ''quantity''"
  "ascii ''name'' \<noteq> ascii ''price''" "ascii ''name'' \<noteq> ascii ''timestamp''"
  "ascii ''quantity'' \<noteq> ascii ''price''" "ascii ''quantity'' \<noteq> ascii ''timestamp''"
  "ascii ''price'' \<noteq> ascii ''timestamp''"
  by (simp_all add: ascii_def)

lemma parse_transaction:
  "foldl step (ExpectValue stack) (transaction_tokens t) = complete (toValue t) stack"
  by (simp add: transaction_tokens_def toValue_def keys_distinct)

lemma parse_first_transaction:
  "foldl step (ExpectValueOrEnd stack) (transaction_tokens t) = complete (toValue t) stack"
  by (simp add: transaction_tokens_def toValue_def keys_distinct)

lemma parse_more_elements:
  "foldl step (ExpectSeparator (ArrayFrame elems # stack)) (Comma # element_tokens (t # ts)) =
     ExpectSeparator (ArrayFrame (elems @ map toValue (t # ts)) # stack)"
proof (induction ts arbitrary: t elems)
  case Nil
  show ?case by (simp add: parse_transaction)
next
  case (Cons u us)
  have "foldl step (ExpectSeparator (ArrayFrame elems # stack))
          (Comma # element_tokens (t # u # us)) =
        foldl step (ExpectSeparator (ArrayFrame (elems @ [toValue t]) # stack))
          (Comma # element_tokens (u # us))"
    by (simp add: parse_transaction)
  also have "\<dots> = ExpectSeparator
      (ArrayFrame ((elems @ [toValue t]) @ map toValue (u # us)) # stack)"
    by (rule Cons.IH)
  finally show ?case by simp
qed

lemma parse_ledger_tokens:
  "foldl step (ExpectValue []) (LBracket # element_tokens ts @ [RBracket]) =
     Finished (ledger_value ts)"
proof (cases ts)
  case Nil
  then show ?thesis by (simp add: ledger_value_def)
next
  case (Cons t us)
  show ?thesis
  proof (cases us)
    case Nil
    with Cons show ?thesis
      by (simp add: ledger_value_def parse_first_transaction)
  next
    case c2: (Cons u vs)
    have "foldl step (ExpectValue []) (LBracket # element_tokens (t # u # vs)) =
        foldl step (ExpectSeparator [ArrayFrame ([] @ [toValue t])])
          (Comma # element_tokens (u # vs))"
      by (simp add: parse_first_transaction)
    also have "\<dots> = ExpectSeparator [ArrayFrame (([] @ [toValue t]) @ map toValue (u # vs))]"
      by (rule parse_more_elements)
    finally show ?thesis
      by (simp add: Cons c2 ledger_value_def)
  qed
qed

lemma JSON_parse_stringify: "JSON_parse (JSON_stringify ts) = Inr (ledger_value ts)"
  by (simp only: JSON_parse_def tokenize_JSON_stringify parse_ledger_tokens option.case pstate.case)

text \<open>
  The text of a ledger is never empty, and two ledgers with the same value are the same
  ledger.
\<close>

lemma JSON_stringify_nonempty: "JSON_stringify ts \<noteq> []"
  by (simp add: JSON_stringify_def ascii_def)

lemma toValue_inject: "toValue t = toValue u \<longleftrightarrow> t = u"
  by (cases t; cases u) (auto simp: toValue_def)

lemma ledger_value_inject: "ledger_value ts = ledger_value us \<longleftrightarrow> ts = us"
proof -
  have "inj toValue"
    by (rule injI) (simp add: toValue_inject)
  then show ?thesis
    by (simp add: ledger_value_def)
qed

lemma load_stored_text:
  assumes "available store" and "dailySales store = Some (JSON_stringify ts)"
  shows "load store = ledger_value ts"
  using assms
  by (simp add: load_def getItem_def JSON_stringify_nonempty JSON_parse_stringify)

subsection \<open>The claims\<close>

text \<open>
  C1. For every ledger and every instant at which the figures are computed,
  \<open>showWarning\<close> is true if and only if the local weekday of that instant is Thursday
  (index 4) and \<open>totalSalesThisWeek\<close> is below the weekly target of 9,000,000; with a
  week total of 8,000,000 it is true on a Thursday and false on a Friday.
\<close>

theorem showWarning_iff:
  "(showWarning (summary tza now today ts) \<longleftrightarrow>
      getDay tza now = 4 \<and> totalSalesThisWeek (summary tza now today ts) < 9000000) \<and>
   (totalSalesThisWeek (summary tza now today ts) = 8000000 \<longrightarrow>
      (getDay tza now = 4 \<longrightarrow> showWarning (summary tza now today ts)) \<and>
      (getDay tza now = 5 \<longrightarrow> \<not> showWarning (summary tza now today ts)))"
proof -
  have warning: "showWarning (summary tza now today ts) \<longleftrightarrow>
      getDay tza now = 4 \<and> totalSalesThisWeek (summary tza now today ts) < 9000000"
    by (simp add: summary_def shouldShowWarning_def isThursday_def todayDay_def WEEKLY_TARGET_def)
  moreover have "getDay tza now = 4 \<longrightarrow> showWarning (summary tza now today ts)"
    if "totalSalesThisWeek (summary tza now today ts) = 8000000"
    using that warning by simp
  moreover have "getDay tza now = 5 \<longrightarrow> \<not> showWarning (summary tza now today ts)"
    using warning by simp
  ultimately show ?thesis by blast
qed

text \<open>
  In the zone UTC+7, on Thursday 14 August 2025 at 10:00 and on the Friday after, with
  one sale of 400 at 20,000 recorded on the Thursday.
\<close>

theorem showWarning_iff_witness:
  "showWarning (summary 25200000 1755140400000 1755140400000
     [\<lparr>id_tx = ascii ''a1'', name = ascii ''Kopi Susu'', quantity = 400, price = 20000,
       timestamp = 1755136800000\<rparr>]) \<and>
   \<not> showWarning (summary 25200000 1755226800000 1755226800000
     [\<lparr>id_tx = ascii ''a1'', name = ascii ''Kopi Susu'', quantity = 400, price = 20000,
       timestamp = 1755136800000\<rparr>]) \<and>
   totalSalesThisWeek (summary 25200000 1755226800000 1755226800000
     [\<lparr>id_tx = ascii ''a1'', name = ascii ''Kopi Susu'', quantity = 400, price = 20000,
       timestamp = 1755136800000\<rparr>]) = 8000000 \<and>
   getDay 25200000 1755140400000 = 4 \<and> getDay 25200000 1755226800000 = 5"
  using showWarning_iff [of 25200000 1755140400000 1755140400000
     "[\<lparr>id_tx = ascii ''a1'', name = ascii ''Kopi Susu'', quantity = 400, price = 20000,
       timestamp = 1755136800000\<rparr>]"]
    showWarning_iff [of 25200000 1755226800000 1755226800000
     "[\<lparr>id_tx = ascii ''a1'', name = ascii ''Kopi Susu'', quantity = 400, price = 20000,
       timestamp = 1755136800000\<rparr>]"]
  by (simp add: summary_defs date_defs)

text \<open>
  C2. For every ledger and every input whose name does not trim to the empty string
  and whose quantity and price are above 0, \<open>handleAddTransaction\<close> yields a ledger that
  is one longer, whose first element is the new record (the trimmed name, the given
  quantity and price, the generated id, the current instant as timestamp) and whose
  remaining elements are the previous ledger.
\<close>

theorem add_valid_prepends:
  assumes "trim (productName st) \<noteq> []"
    and "ToNumber (quantity_field st) = Num q" and "0 < q"
    and "ToNumber (price_field st) = Num p" and "0 < p"
  shows "transactions (handleAddTransaction uuid now st) =
           \<lparr>id_tx = uuid, name = trim (productName st), quantity = q, price = p,
            timestamp = now\<rparr> # transactions st \<and>
         length (transactions (handleAddTransaction uuid now st)) = length (transactions st) + 1 \<and>
         hd (transactions (handleAddTransaction uuid now st)) =
           \<lparr>id_tx = uuid, name = trim (productName st), quantity = q, price = p,
            timestamp = now\<rparr> \<and>
         tl (transactions (handleAddTransaction uuid now st)) = transactions st"
  using assms by (simp add: handleAddTransaction_def)

theorem add_valid_prepends_witness:
  "transactions (handleAddTransaction (ascii ''u-1'') 1755140400000
     \<lparr>transactions = [], productName = ascii ''  Kopi Susu '', quantity_field = Numeric (Num 2),
      price_field = Numeric (Num 18000)\<rparr>) =
   [\<lparr>id_tx = ascii ''u-1'', name = ascii ''Kopi Susu'', quantity = 2, price = 18000,
     timestamp = 1755140400000\<rparr>]"
  using add_valid_prepends [of
     "\<lparr>transactions = [], productName = ascii ''  Kopi Susu '', quantity_field = Numeric (Num 2),
      price_field = Numeric (Num 18000)\<rparr>" 2 18000 "ascii ''u-1''" 1755140400000]
  by (simp add: trim_def isWhiteSpace_def ascii_def)

text \<open>
  C3. For every ledger and every input whose name trims to the empty string, or whose
  quantity is at most 0, or whose price is at most 0, \<open>handleAddTransaction\<close> returns
  the state it was given: no record is created, and the handler has no error result.
  The same holds when the quantity or the price is \<^verbatim>\<open>NaN\<close>.
\<close>

theorem add_invalid_unchanged:
  assumes "trim (productName st) = [] \<or>
           (\<exists>q. ToNumber (quantity_field st) = Num q \<and> q \<le> 0) \<or>
           (\<exists>p. ToNumber (price_field st) = Num p \<and> p \<le> 0) \<or>
           ToNumber (quantity_field st) = NaN \<or> ToNumber (price_field st) = NaN"
  shows "handleAddTransaction uuid now st = st"
  using assms by (auto simp: handleAddTransaction_def split: jsnumber.splits)

theorem add_invalid_unchanged_witness:
  "handleAddTransaction (ascii ''u-1'') 1755140400000
     \<lparr>transactions = [], productName = ascii ''   '', quantity_field = Numeric (Num 2),
      price_field = EmptyString\<rparr> =
   \<lparr>transactions = [], productName = ascii ''   '', quantity_field = Numeric (Num 2),
      price_field = EmptyString\<rparr>"
  using add_invalid_unchanged [of
     "\<lparr>transactions = [], productName = ascii ''   '', quantity_field = Numeric (Num 2),
      price_field = EmptyString\<rparr>" "ascii ''u-1''" 1755140400000]
  by (simp add: trim_def isWhiteSpace_def ascii_def)

text \<open>
  C6, as the code has it. For every ledger and every instant, the daily transactions
  are among the weekly transactions; and for every ledger whose records have a
  quantity of at least 1 and a price of at least 0 (the bounds of the data model, which
  the records that \<open>handleAddTransaction\<close> creates have), \<open>totalSalesToday\<close> is at most
  \<open>totalSalesThisWeek\<close>. The ledger that \<open>load\<close> returns is not checked against these
  bounds.
\<close>

theorem daily_within_weekly:
  "set (dailyTransactions tza now today ts) \<subseteq> set (weeklyTransactions tza now ts) \<and>
   ((\<forall>t\<in>set ts. 1 \<le> quantity t \<and> 0 \<le> price t) \<longrightarrow>
      totalSalesToday (summary tza now today ts) \<le> totalSalesThisWeek (summary tza now today ts))"
proof (intro conjI impI)
  show "set (dailyTransactions tza now today ts) \<subseteq> set (weeklyTransactions tza now ts)"
    by (simp add: dailyTransactions_def)
next
  assume bounds: "\<forall>t\<in>set ts. 1 \<le> quantity t \<and> 0 \<le> price t"
  have "\<forall>t\<in>set (weeklyTransactions tza now ts). 0 \<le> quantity t * price t"
  proof
    fix t assume "t \<in> set (weeklyTransactions tza now ts)"
    then have "t \<in> set ts" by (simp add: weeklyTransactions_def)
    with bounds have "0 \<le> quantity t" and "0 \<le> price t" by auto
    then show "0 \<le> quantity t * price t" by (rule mult_nonneg_nonneg)
  qed
  then have "(\<Sum>t\<leftarrow>filter (\<lambda>t. timestamp t \<ge> startOfToday tza today) (weeklyTransactions tza now ts).
                quantity t * price t) \<le> (\<Sum>t\<leftarrow>weeklyTransactions tza now ts. quantity t * price t)"
    by (rule sum_list_filter_le)
  then show "totalSalesToday (summary tza now today ts) \<le> totalSalesThisWeek (summary tza now today ts)"
    by (simp add: totalSalesToday_sum totalSalesThisWeek_sum dailyTransactions_def)
qed

text \<open>
  The scenario of the specification: two at 18,000 today and one at 25,000 yesterday,
  in the same week.
\<close>

theorem daily_within_weekly_witness:
  "totalSalesToday (summary 25200000 1755140400000 1755140400000
     [\<lparr>id_tx = ascii ''a1'', name = ascii ''Kopi Susu'', quantity = 2, price = 18000,
       timestamp = 1755136800000\<rparr>,
      \<lparr>id_tx = ascii ''b2'', name = ascii ''Teh'', quantity = 1, price = 25000,
       timestamp = 1755054000000\<rparr>]) = 36000 \<and>
   totalItemsToday (summary 25200000 1755140400000 1755140400000
     [\<lparr>id_tx = ascii ''a1'', name = ascii ''Kopi Susu'', quantity = 2, price = 18000,
       timestamp = 1755136800000\<rparr>,
      \<lparr>id_tx = ascii ''b2'', name = ascii ''Teh'', quantity = 1, price = 25000,
       timestamp = 1755054000000\<rparr>]) = 2 \<and>
   totalSalesThisWeek (summary 25200000 1755140400000 1755140400000
     [\<lparr>id_tx = ascii ''a1'', name = ascii ''Kopi Susu'', quantity = 2, price = 18000,
       timestamp = 1755136800000\<rparr>,
      \<lparr>id_tx = ascii ''b2'', name = ascii ''Teh'', quantity = 1, price = 25000,
       timestamp = 1755054000000\<rparr>]) = 61000 \<and>
   totalSalesToday (summary 25200000 1755140400000 1755140400000
     [\<lparr>id_tx = ascii ''a1'', name = ascii ''Kopi Susu'', quantity = 2, price = 18000,
       timestamp = 1755136800000\<rparr>,
      \<lparr>id_tx = ascii ''b2'', name = ascii ''Teh'', quantity = 1, price = 25000,
       timestamp = 1755054000000\<rparr>]) \<le>
   totalSalesThisWeek (summary 25200000 1755140400000 1755140400000
     [\<lparr>id_tx = ascii ''a1'', name = ascii ''Kopi Susu'', quantity = 2, price = 18000,
       timestamp = 1755136800000\<rparr>,
      \<lparr>id_tx = ascii ''b2'', name = ascii ''Teh'', quantity = 1, price = 25000,
       timestamp = 1755054000000\<rparr>])"
  using daily_within_weekly [of 25200000 1755140400000 1755140400000
     "[\<lparr>id_tx = ascii ''a1'', name = ascii ''Kopi Susu'', quantity = 2, price = 18000,
       timestamp = 1755136800000\<rparr>,
      \<lparr>id_tx = ascii ''b2'', name = ascii ''Teh'', quantity = 1, price = 25000,
       timestamp = 1755054000000\<rparr>]"]
  by (simp add: summary_defs date_defs)

text \<open>
  C6, as stated for every ledger, fails: with a sale of 100 today and a record of the
  day before with a price of -200, both in the same week, the total of today is 100
  and the total of the week is -100.
\<close>

theorem daily_exceeds_weekly_counterexample:
  "totalSalesToday (summary 25200000 1755140400000 1755140400000
     [\<lparr>id_tx = ascii ''a1'', name = ascii ''Kopi Susu'', quantity = 1, price = 100,
       timestamp = 1755136800000\<rparr>,
      \<lparr>id_tx = ascii ''b2'', name = ascii ''Teh'', quantity = 1, price = - 200,
       timestamp = 1755054000000\<rparr>]) = 100 \<and>
   totalSalesThisWeek (summary 25200000 1755140400000 1755140400000
     [\<lparr>id_tx = ascii ''a1'', name = ascii ''Kopi Susu'', quantity = 1, price = 100,
       timestamp = 1755136800000\<rparr>,
      \<lparr>id_tx = ascii ''b2'', name = ascii ''Teh'', quantity = 1, price = - 200,
       timestamp = 1755054000000\<rparr>]) = - 100 \<and>
   \<not> totalSalesToday (summary 25200000 1755140400000 1755140400000
     [\<lparr>id_tx = ascii ''a1'', name = ascii ''Kopi Susu'', quantity = 1, price = 100,
       timestamp = 1755136800000\<rparr>,
      \<lparr>id_tx = ascii ''b2'', name = ascii ''Teh'', quantity = 1, price = - 200,
       timestamp = 1755054000000\<rparr>]) \<le>
     totalSalesThisWeek (summary 25200000 1755140400000 1755140400000
     [\<lparr>id_tx = ascii ''a1'', name = ascii ''Kopi Susu'', quantity = 1, price = 100,
       timestamp = 1755136800000\<rparr>,
      \<lparr>id_tx = ascii ''b2'', name = ascii ''Teh'', quantity = 1, price = - 200,
       timestamp = 1755054000000\<rparr>])"
  by (simp add: summary_defs date_defs)

text \<open>
  C7. For every ledger and every cutoff, the update of \<open>handleClearAll\<close> leaves no
  record with a timestamp at or after the cutoff and keeps every record with a
  timestamp before it, as often as it occurred and in the same order; confirmed,
  \<open>handleClearAll\<close> is that update at the start of today, so that no record of today
  is left and the earlier records are the ones the ledger had.
\<close>

theorem clearUpTo_exact:
  "(\<forall>t\<in>set (transactions (clearUpTo cutoff st)). timestamp t < cutoff) \<and>
   (\<forall>t. timestamp t < cutoff \<longrightarrow>
      count_list (transactions (clearUpTo cutoff st)) t = count_list (transactions st) t) \<and>
   subseq (transactions (clearUpTo cutoff st)) (transactions st) \<and>
   handleClearAll tza True today st = clearUpTo (startOfToday tza today) st \<and>
   spec_dailyTransactions tza today (transactions (handleClearAll tza True today st)) = [] \<and>
   filter (\<lambda>t. timestamp t < startOfToday tza today)
       (transactions (handleClearAll tza True today st)) =
     filter (\<lambda>t. timestamp t < startOfToday tza today) (transactions st)"
proof -
  have left: "transactions (clearUpTo c st) = filter (\<lambda>t. timestamp t < c) (transactions st)" for c
    by (simp add: clearUpTo_def)
  have click: "handleClearAll tza True today st = clearUpTo (startOfToday tza today) st"
    by (simp add: handleClearAll_def startOfToday_def)
  have "\<forall>t\<in>set (transactions (clearUpTo cutoff st)). timestamp t < cutoff"
    unfolding left by simp
  moreover have "\<forall>t. timestamp t < cutoff \<longrightarrow>
      count_list (transactions (clearUpTo cutoff st)) t = count_list (transactions st) t"
    unfolding left by (simp add: count_list_filter)
  moreover have "subseq (transactions (clearUpTo cutoff st)) (transactions st)"
    unfolding left by (rule subseq_filter_left)
  moreover have "spec_dailyTransactions tza today (transactions (handleClearAll tza True today st)) = []"
    unfolding click left spec_dailyTransactions_def by (simp add: filter_empty_conv)
  moreover have "filter (\<lambda>t. timestamp t < startOfToday tza today)
      (transactions (handleClearAll tza True today st)) =
      filter (\<lambda>t. timestamp t < startOfToday tza today) (transactions st)"
    unfolding click left by simp
  ultimately show ?thesis using click by blast
qed

theorem clearUpTo_exact_witness:
  "transactions (handleClearAll 25200000 True 1755140400000
     \<lparr>transactions =
        [\<lparr>id_tx = ascii ''a1'', name = ascii ''Kopi Susu'', quantity = 2, price = 18000,
       timestamp = 1755136800000\<rparr>,
      \<lparr>id_tx = ascii ''b2'', name = ascii ''Teh'', quantity = 1, price = 25000,
       timestamp = 1755054000000\<rparr>],
      productName = [], quantity_field = Numeric (Num 1), price_field = EmptyString\<rparr>) =
   [\<lparr>id_tx = ascii ''b2'', name = ascii ''Teh'', quantity = 1, price = 25000,
     timestamp = 1755054000000\<rparr>]"
  using clearUpTo_exact [of 1755104400000
     "\<lparr>transactions =
        [\<lparr>id_tx = ascii ''a1'', name = ascii ''Kopi Susu'', quantity = 2, price = 18000,
       timestamp = 1755136800000\<rparr>,
      \<lparr>id_tx = ascii ''b2'', name = ascii ''Teh'', quantity = 1, price = 25000,
       timestamp = 1755054000000\<rparr>],
      productName = [], quantity_field = Numeric (Num 1), price_field = EmptyString\<rparr>"
     25200000 1755140400000]
  by (simp add: handleClearAll_def clearUpTo_def date_defs)

text \<open>
  C8. For every ledger and every id, deleting the id twice gives the ledger that
  deleting it once gives, and deleting an id that no record has returns the state
  unchanged; the handler has no error result.
\<close>

theorem remove_idempotent:
  "handleDeleteTransaction i (handleDeleteTransaction i st) = handleDeleteTransaction i st \<and>
   ((\<forall>t\<in>set (transactions st). id_tx t \<noteq> i) \<longrightarrow> handleDeleteTransaction i st = st)"
proof (intro conjI impI)
  show "handleDeleteTransaction i (handleDeleteTransaction i st) = handleDeleteTransaction i st"
    by (simp add: handleDeleteTransaction_def)
next
  assume "\<forall>t\<in>set (transactions st). id_tx t \<noteq> i"
  then have "filter (\<lambda>t. id_tx t \<noteq> i) (transactions st) = transactions st"
    by (simp add: filter_id_conv)
  then show "handleDeleteTransaction i st = st"
    by (simp add: handleDeleteTransaction_def)
qed

theorem remove_idempotent_witness:
  "handleDeleteTransaction (ascii ''c3'')
     \<lparr>transactions =
        [\<lparr>id_tx = ascii ''a1'', name = ascii ''Kopi Susu'', quantity = 2, price = 18000,
          timestamp = 1755136800000\<rparr>],
      productName = [], quantity_field = Numeric (Num 1), price_field = EmptyString\<rparr> =
     \<lparr>transactions =
        [\<lparr>id_tx = ascii ''a1'', name = ascii ''Kopi Susu'', quantity = 2, price = 18000,
          timestamp = 1755136800000\<rparr>],
      productName = [], quantity_field = Numeric (Num 1), price_field = EmptyString\<rparr>"
  using remove_idempotent [of "ascii ''c3''"
     "\<lparr>transactions =
        [\<lparr>id_tx = ascii ''a1'', name = ascii ''Kopi Susu'', quantity = 2, price = 18000,
          timestamp = 1755136800000\<rparr>],
      productName = [], quantity_field = Numeric (Num 1), price_field = EmptyString\<rparr>"]
  by (simp add: ascii_def)

text \<open>
  C9. For every ledger and every instant, the daily list that the callback computes
  (a filter of the weekly list) is the list that the specification defines (the filter
  of the whole ledger by a timestamp of at least the start of today); the start of the
  week is never after the start of today.
\<close>

theorem daily_refines_spec:
  "transactionsToday (summary tza t t ts) = spec_dailyTransactions tza t ts \<and>
   startOfWeek tza t \<le> startOfToday tza t"
  by (simp add: summary_def dailyTransactions_direct startOfWeek_le_startOfToday)

text \<open>
  C10. For every ledger and every id, after \<open>handleDeleteTransaction\<close> no record has
  the id (all of them are deleted when several had it), every record with another id
  occurs as often as before, and the ledger left is a subsequence of the old one, so
  the order of the records kept is theirs.
\<close>

theorem remove_frame:
  "(\<forall>t\<in>set (transactions (handleDeleteTransaction i st)). id_tx t \<noteq> i) \<and>
   (\<forall>t. id_tx t \<noteq> i \<longrightarrow>
      count_list (transactions (handleDeleteTransaction i st)) t = count_list (transactions st) t) \<and>
   subseq (transactions (handleDeleteTransaction i st)) (transactions st) \<and>
   filter (\<lambda>t. id_tx t \<noteq> i) (transactions (handleDeleteTransaction i st)) =
     filter (\<lambda>t. id_tx t \<noteq> i) (transactions st)"
proof -
  have left: "transactions (handleDeleteTransaction i st) =
      filter (\<lambda>t. id_tx t \<noteq> i) (transactions st)"
    by (simp add: handleDeleteTransaction_def)
  have "\<forall>t\<in>set (transactions (handleDeleteTransaction i st)). id_tx t \<noteq> i"
    unfolding left by simp
  moreover have "\<forall>t. id_tx t \<noteq> i \<longrightarrow>
      count_list (transactions (handleDeleteTransaction i st)) t = count_list (transactions st) t"
    unfolding left by (simp add: count_list_filter)
  moreover have "subseq (transactions (handleDeleteTransaction i st)) (transactions st)"
    unfolding left by (rule subseq_filter_left)
  moreover have "filter (\<lambda>t. id_tx t \<noteq> i) (transactions (handleDeleteTransaction i st)) =
      filter (\<lambda>t. id_tx t \<noteq> i) (transactions st)"
    unfolding left by simp
  ultimately show ?thesis by blast
qed

theorem remove_frame_witness:
  "transactions (handleDeleteTransaction (ascii ''a1'')
     \<lparr>transactions =
        [\<lparr>id_tx = ascii ''a1'', name = ascii ''Kopi Susu'', quantity = 2, price = 18000,
          timestamp = 1755136800000\<rparr>,
         \<lparr>id_tx = ascii ''b2'', name = ascii ''Teh'', quantity = 1, price = 25000,
          timestamp = 1755054000000\<rparr>,
         \<lparr>id_tx = ascii ''a1'', name = ascii ''Roti'', quantity = 3, price = 5000,
          timestamp = 1755050000000\<rparr>],
      productName = [], quantity_field = Numeric (Num 1), price_field = EmptyString\<rparr>) =
   [\<lparr>id_tx = ascii ''b2'', name = ascii ''Teh'', quantity = 1, price = 25000,
     timestamp = 1755054000000\<rparr>]"
  using remove_frame [of "ascii ''a1''"
     "\<lparr>transactions =
        [\<lparr>id_tx = ascii ''a1'', name = ascii ''Kopi Susu'', quantity = 2, price = 18000,
          timestamp = 1755136800000\<rparr>,
         \<lparr>id_tx = ascii ''b2'', name = ascii ''Teh'', quantity = 1, price = 25000,
          timestamp = 1755054000000\<rparr>,
         \<lparr>id_tx = ascii ''a1'', name = ascii ''Roti'', quantity = 3, price = 5000,
          timestamp = 1755050000000\<rparr>],
      productName = [], quantity_field = Numeric (Num 1), price_field = EmptyString\<rparr>"]
  by (simp add: handleDeleteTransaction_def ascii_def)

text \<open>
  C4, as the code has it. \<open>load\<close> returns the empty array when the storage cannot be
  read, when the slot is absent or holds the empty string, and when \<^verbatim>\<open>JSON.parse\<close>
  rejects the text; it has no error result. A text that is valid JSON is returned as it
  parses, whether or not it is a ledger.
\<close>

theorem load_fail_soft:
  "(getItem store = Inl e \<longrightarrow> load store = JArray []) \<and>
   (getItem store = Inr None \<longrightarrow> load store = JArray []) \<and>
   (getItem store = Inr (Some text) \<and> (text = [] \<or> JSON_parse text = Inl e') \<longrightarrow>
      load store = JArray []) \<and>
   (getItem store = Inr (Some text) \<and> text \<noteq> [] \<and> JSON_parse text = Inr v \<longrightarrow> load store = v)"
proof (intro conjI impI)
  assume "getItem store = Inl e"
  then show "load store = JArray []" by (simp add: load_def)
next
  assume "getItem store = Inr None"
  then show "load store = JArray []" by (simp add: load_def)
next
  assume "getItem store = Inr (Some text) \<and> (text = [] \<or> JSON_parse text = Inl e')"
  then show "load store = JArray []" by (auto simp: load_def)
next
  assume "getItem store = Inr (Some text) \<and> text \<noteq> [] \<and> JSON_parse text = Inr v"
  then show "load store = v" by (simp add: load_def)
qed

theorem load_fail_soft_witness:
  "load \<lparr>available = False, quota = 5242880, dailySales = Some (ascii ''[]'')\<rparr> = JArray [] \<and>
   load \<lparr>available = True, quota = 5242880, dailySales = None\<rparr> = JArray [] \<and>
   load \<lparr>available = True, quota = 5242880, dailySales = Some []\<rparr> = JArray [] \<and>
   JSON_parse (ascii ''[{id:1}]'') = Inl SyntaxError \<and>
   load \<lparr>available = True, quota = 5242880, dailySales = Some (ascii ''[{id:1}]'')\<rparr> = JArray [] \<and>
   JSON_parse (ascii ''[1,'') = Inl SyntaxError \<and>
   load \<lparr>available = True, quota = 5242880, dailySales = Some (ascii ''[1,'')\<rparr> = JArray []"
  using
    load_fail_soft [of "\<lparr>available = False, quota = 5242880, dailySales = Some (ascii ''[]'')\<rparr>"
      SecurityError "[]" SyntaxError JNull]
    load_fail_soft [of "\<lparr>available = True, quota = 5242880, dailySales = None\<rparr>"
      SecurityError "[]" SyntaxError JNull]
    load_fail_soft [of "\<lparr>available = True, quota = 5242880, dailySales = Some []\<rparr>"
      SecurityError "[]" SyntaxError JNull]
    load_fail_soft [of "\<lparr>available = True, quota = 5242880, dailySales = Some (ascii ''[{id:1}]'')\<rparr>"
      SecurityError "ascii ''[{id:1}]''" SyntaxError JNull]
    load_fail_soft [of "\<lparr>available = True, quota = 5242880, dailySales = Some (ascii ''[1,'')\<rparr>"
      SecurityError "ascii ''[1,''" SyntaxError JNull]
  by (simp add: getItem_def JSON_parse_def ascii_def isJSONWhiteSpace_def isDigit_def
      scan_number_def scan_int_def scan_frac_def scan_exp_def mkNumber_def decimalValue_def
      digitValue_def)

text \<open>
  C4, as stated, fails: the texts \<^verbatim>\<open>42\<close> and \<^verbatim>\<open>{}\<close> are not serialized ledgers, and
  \<open>load\<close> returns the number and the object, not the empty array.
\<close>

theorem load_not_a_ledger_counterexample:
  "load \<lparr>available = True, quota = 5242880, dailySales = Some (ascii ''42'')\<rparr> = JNumber 42 \<and>
   load \<lparr>available = True, quota = 5242880, dailySales = Some (ascii ''{}'')\<rparr> = JObject [] \<and>
   JNumber 42 \<noteq> JArray [] \<and> JObject [] \<noteq> JArray [] \<and>
   (\<forall>ts. ledger_value ts \<noteq> JNumber 42 \<and> ledger_value ts \<noteq> JObject [])"
  by (simp add: load_def getItem_def JSON_parse_def ascii_def isJSONWhiteSpace_def isDigit_def
      scan_number_def scan_int_def scan_frac_def scan_exp_def mkNumber_def decimalValue_def
      digitValue_def ledger_value_def)

text \<open>
  C5. For every ledger of the data model, when the write of \<open>persist\<close> succeeds,
  \<open>load\<close> of the storage that \<open>persist\<close> leaves returns the value of the ledger
  persisted, and of no other ledger.
\<close>

theorem persist_load_roundtrip:
  assumes "setItem (JSON_stringify ts) store = Inr store'"
  shows "load (persist ts store) = ledger_value ts \<and>
         (load (persist ts store) = ledger_value us \<longleftrightarrow> us = ts)"
proof -
  from assms have "available store'" and "dailySales store' = Some (JSON_stringify ts)"
    by (auto simp: setItem_def split: if_splits)
  then have "load store' = ledger_value ts"
    by (rule load_stored_text)
  moreover have "persist ts store = store'"
    using assms by (simp add: persist_def)
  ultimately show ?thesis
    by (auto simp: ledger_value_inject)
qed

theorem persist_load_roundtrip_witness:
  "load (persist
     [\<lparr>id_tx = ascii ''a1'', name = ascii ''Kopi Susu'', quantity = 2, price = 18000,
       timestamp = 1755136800000\<rparr>,
      \<lparr>id_tx = ascii ''b2'', name = ascii ''Teh'', quantity = 1, price = 25000,
       timestamp = 1755054000000\<rparr>]
     \<lparr>available = True, quota = 5242880, dailySales = None\<rparr>) =
   JArray
     [JObject [(ascii ''id'', JString (ascii ''a1'')), (ascii ''name'', JString (ascii ''Kopi Susu'')),
        (ascii ''quantity'', JNumber 2), (ascii ''price'', JNumber 18000),
        (ascii ''timestamp'', JNumber 1755136800000)],
      JObject [(ascii ''id'', JString (ascii ''b2'')), (ascii ''name'', JString (ascii ''Teh'')),
        (ascii ''quantity'', JNumber 1), (ascii ''price'', JNumber 25000),
        (ascii ''timestamp'', JNumber 1755054000000)]]"
proof -
  have fits: "length (JSON_stringify
     [\<lparr>id_tx = ascii ''a1'', name = ascii ''Kopi Susu'', quantity = 2, price = 18000,
       timestamp = 1755136800000\<rparr>,
      \<lparr>id_tx = ascii ''b2'', name = ascii ''Teh'', quantity = 1, price = 25000,
       timestamp = 1755054000000\<rparr>]) = 163"
    by (simp add: JSON_stringify_def SerializeTransaction_def QuoteJSONString_def
        NumberToString_def digits.simps ascii_def isLeadingSurrogate_def isTrailingSurrogate_def)
  show ?thesis
    using persist_load_roundtrip [of
     "[\<lparr>id_tx = ascii ''a1'', name = ascii ''Kopi Susu'', quantity = 2, price = 18000,
       timestamp = 1755136800000\<rparr>,
      \<lparr>id_tx = ascii ''b2'', name = ascii ''Teh'', quantity = 1, price = 25000,
       timestamp = 1755054000000\<rparr>]"
     "\<lparr>available = True, quota = 5242880, dailySales = None\<rparr>"
     "\<lparr>available = True, quota = 5242880, dailySales = Some (JSON_stringify
     [\<lparr>id_tx = ascii ''a1'', name = ascii ''Kopi Susu'', quantity = 2, price = 18000,
       timestamp = 1755136800000\<rparr>,
      \<lparr>id_tx = ascii ''b2'', name = ascii ''Teh'', quantity = 1, price = 25000,
       timestamp = 1755054000000\<rparr>])\<rparr>"]
    by (simp add: setItem_def fits ledger_value_def toValue_def)
qed

end
